theory Spec2Isabelle
  imports Complex_Main
begin

section \<open>JavaScript values and built-ins used by the scripts\<close>

text \<open>
  The CSV parser runs with \<open>dynamicTyping: true\<close>, so a cell reaches the scripts as a
  number, a boolean, a date, \<open>null\<close> (an empty cell) or a non-empty string, and a column
  that a row does not have reads as \<open>undefined\<close>. The parser takes a cell for a date by
  its shape alone, so the \<open>Date\<close> object it builds can be an invalid date (a month 19,
  say). Numbers are kept exact (a rational); the rounding of doubles is not modelled.
\<close>

datatype jsval =
    JUndefined
  | JNull
  | JBool bool
  | JNum rat
  | JStr string
  | JDate string  \<comment> \<open>a valid Date object, carrying \<open>toISOString()\<close>\<close>
  | JInvalidDate  \<comment> \<open>a Date object whose time value is \<open>NaN\<close>\<close>

text \<open>\<open>typeof v\<close>.\<close>

fun js_typeof :: "jsval \<Rightarrow> string" where
  "js_typeof JUndefined = ''undefined''"
| "js_typeof JNull = ''object''"
| "js_typeof (JBool b) = ''boolean''"
| "js_typeof (JNum r) = ''number''"
| "js_typeof (JStr s) = ''string''"
| "js_typeof (JDate d) = ''object''"
| "js_typeof JInvalidDate = ''object''"

text \<open>Truthiness, as \<open>&&\<close>, \<open>||\<close> and \<open>if\<close> read a value.\<close>

fun js_truthy :: "jsval \<Rightarrow> bool" where
  "js_truthy JUndefined = False"
| "js_truthy JNull = False"
| "js_truthy (JBool b) = b"
| "js_truthy (JNum r) = (r \<noteq> 0)"
| "js_truthy (JStr s) = (s \<noteq> [])"
| "js_truthy (JDate d) = True"
| "js_truthy JInvalidDate = True"

text \<open>
  \<open>String(v)\<close> and the \<open>${v}\<close> of a template literal. The renderings of numbers and
  of valid dates are the language's own (\<open>Number::toString\<close>, \<open>Date.prototype.toString\<close>)
  and are taken as the parameter \<open>fmt\<close>; an invalid date renders as 'Invalid Date'.
\<close>

fun js_String :: "(jsval \<Rightarrow> string) \<Rightarrow> jsval \<Rightarrow> string" where
  "js_String fmt JUndefined = ''undefined''"
| "js_String fmt JNull = ''null''"
| "js_String fmt (JBool b) = (if b then ''true'' else ''false'')"
| "js_String fmt (JStr s) = s"
| "js_String fmt JInvalidDate = ''Invalid Date''"
| "js_String fmt v = fmt v"

text \<open>\<open>xs[i]\<close> on an array of cells: \<open>undefined\<close> out of range.\<close>

definition js_index :: "jsval list \<Rightarrow> nat \<Rightarrow> jsval" where
  "js_index xs i = (if i < length xs then xs ! i else JUndefined)"

text \<open>
  \<open>xs.slice(start, end)\<close> for integer arguments: a negative index counts from the end,
  both are clamped to \<open>[0, length]\<close>.
\<close>

definition js_slice :: "'a list \<Rightarrow> int \<Rightarrow> int \<Rightarrow> 'a list" where
  "js_slice xs start end' =
     (let len = int (length xs);
          k = (if start < 0 then max (len + start) 0 else min start len);
          final = (if end' < 0 then max (len + end') 0 else min end' len)
      in take (nat (final - k)) (drop (nat k) xs))"

text \<open>
  Errors are values. Each \<open>throw new Error(...)\<close> and each \<open>reject(new Error(...))\<close> of
  the scripts has its own constructor; \<open>RemoteError\<close> is whatever the remote call
  rejects with, \<open>TypeError\<close> is the runtime's error on reading a property of
  \<open>undefined\<close>, \<open>RangeError\<close> the one \<open>toISOString()\<close> throws on an invalid date.
\<close>

datatype error =
    NoPredictionsToAnalyze           \<comment> \<open>'No predictions to analyze'\<close>
  | FileNotFound string              \<comment> \<open>'File not found: <path>'\<close>
  | ErrorParsingFile string          \<comment> \<open>'Error parsing file: <message>'\<close>
  | ErrorReadingFile string          \<comment> \<open>'Error reading file: <message>'\<close>
  | NoValidRecordsFound string       \<comment> \<open>'No valid records found in <path>'\<close>
  | ModelRefusedToClassify           \<comment> \<open>'Model refused to classify'\<close>
  | NoValidResponseReceived          \<comment> \<open>'No valid response received'\<close>
  | AllRetriesFailed                 \<comment> \<open>'All retries failed'\<close>
  | FileStreamError string           \<comment> \<open>'File stream error: <message>'\<close>
  | ParseStreamError string          \<comment> \<open>'Parse stream error: <message>'\<close>
  | ProcessingError string           \<comment> \<open>'Processing error: <message>'\<close>
  | RemoteError string
  | TypeError
  | RangeError

section \<open>step3\_analyze\_results.ts\<close>

text \<open>
  \<open>WinePredictionRecord\<close> as the objects are at run time: \<open>recordId\<close> and \<open>model\<close> are
  copied from the parsed row untouched, the other fields went through \<open>String(...)\<close>.
\<close>

record WinePredictionRecord =
  recordId :: jsval
  model :: jsval
  prediction :: string
  timestamp :: string
  winery :: string
  variety :: string
  actual_variety :: string

text \<open>An element of \<open>incorrectExamples\<close> (\<open>winery\<close>, \<open>predicted\<close>, \<open>actual\<close>).\<close>

record IncorrectExample =
  ex_winery :: string
  predicted :: string
  actual :: string

text \<open>\<open>WineAnalysisResult\<close>; its \<open>model\<close> field is \<open>res_model\<close> here.\<close>

record WineAnalysisResult =
  res_model :: jsval
  totalPredictions :: nat
  correctPredictions :: nat
  accuracy :: rat
  incorrectExamples :: "IncorrectExample list"

text \<open>
  \<open>validateWinePredictionRecord\<close>. The argument is the object literal \<open>mappedRecord\<close>, so
  \<open>typeof record === 'object' && record !== null\<close> holds; the remaining conjuncts are
  in the source's order.
\<close>

definition validateWinePredictionRecord :: "WinePredictionRecord \<Rightarrow> bool" where
  "validateWinePredictionRecord record' =
     ((js_typeof (recordId record') = ''number'' \<or> js_typeof (recordId record') = ''string'') \<and>
      js_typeof (model record') = ''string'' \<and>
      js_typeof (JStr (prediction record')) = ''string'' \<and>
      js_typeof (JStr (winery record')) = ''string'' \<and>
      js_typeof (JStr (variety record')) = ''string'' \<and>
      js_typeof (JStr (actual_variety record')) = ''string'')"

text \<open>
  The loop of \<open>calculateWineAccuracy\<close>: \<open>correctPredictions\<close> counts, \<open>incorrectExamples\<close>
  grows by \<open>push\<close>.
\<close>

fun accuracy_loop ::
  "WinePredictionRecord list \<Rightarrow> nat \<Rightarrow> IncorrectExample list \<Rightarrow> nat \<times> IncorrectExample list"
where
  "accuracy_loop [] correct incorrect = (correct, incorrect)"
| "accuracy_loop (p # ps) correct incorrect =
     (if prediction p = actual_variety p
      then accuracy_loop ps (correct + 1) incorrect
      else accuracy_loop ps correct
             (incorrect @ [\<lparr>ex_winery = winery p, predicted = prediction p,
                             actual = actual_variety p\<rparr>]))"

definition calculateWineAccuracy :: "WinePredictionRecord list \<Rightarrow> error + WineAnalysisResult" where
  "calculateWineAccuracy predictions =
     (if length predictions = 0 then Inl NoPredictionsToAnalyze
      else
        (case accuracy_loop predictions 0 [] of
          (correct, incorrect) \<Rightarrow>
            Inr \<lparr>res_model = model (predictions ! 0),
                 totalPredictions = length predictions,
                 correctPredictions = correct,
                 accuracy = of_nat correct / of_nat (length predictions),
                 incorrectExamples = js_slice incorrect 0 5\<rparr>))"

text \<open>
  What a read stream delivers before it ends: rows, and possibly an error of the file
  stream or of the parser. A promise settles once, so the first error decides and
  whatever follows it is ignored; with no error, \<open>'end'\<close> comes after the last row.
\<close>

datatype 'r stream_event = Data 'r | FileError string | ParseError string

text \<open>
  The \<open>'data'\<close> handler of \<open>readPredictionsFile\<close>: the row is an array of cells
  (\<open>header: false\<close>). \<open>record[3].toISOString()\<close> throws a \<open>RangeError\<close> when the date is
  invalid; nothing in the handler catches it.
\<close>

definition mapPredictionRow ::
  "(jsval \<Rightarrow> string) \<Rightarrow> jsval list \<Rightarrow> error + WinePredictionRecord"
where
  "mapPredictionRow fmt record' =
     (case (case js_index record' 3 of
              JDate isoString \<Rightarrow> Inr isoString
            | JInvalidDate \<Rightarrow> Inl RangeError
            | v \<Rightarrow> Inr (js_String fmt v)) of
        Inl err \<Rightarrow> Inl err
      | Inr timestamp' \<Rightarrow>
          Inr \<lparr>recordId = js_index record' 0,
               model = js_index record' 1,
               prediction = js_String fmt (js_index record' 2),
               timestamp = timestamp',
               winery = js_String fmt (js_index record' 4),
               variety = js_String fmt (js_index record' 5),
               actual_variety = js_String fmt (js_index record' 6)\<rparr>)"

definition onPredictionData ::
  "(jsval \<Rightarrow> string) \<Rightarrow> WinePredictionRecord list \<Rightarrow> jsval list
     \<Rightarrow> error + WinePredictionRecord list"
where
  "onPredictionData fmt validRecords record' =
     (case mapPredictionRow fmt record' of
        Inl err \<Rightarrow> Inl err
      | Inr mappedRecord \<Rightarrow>
          Inr (if validateWinePredictionRecord mappedRecord then validRecords @ [mappedRecord]
               else validRecords))"

text \<open>
  The stream of \<open>readPredictionsFile\<close> up to \<open>'end'\<close>. An exception that leaves the
  \<open>'data'\<close> handler is not a rejection of the promise: it is uncaught and ends the
  process, and is the error value here.
\<close>

fun readPredictionsStream ::
  "(jsval \<Rightarrow> string) \<Rightarrow> string \<Rightarrow> jsval list stream_event list \<Rightarrow> WinePredictionRecord list
     \<Rightarrow> error + WinePredictionRecord list"
where
  "readPredictionsStream fmt filePath [] validRecords =
     (if length validRecords = 0 then Inl (NoValidRecordsFound filePath) else Inr validRecords)"
| "readPredictionsStream fmt filePath (Data record' # es) validRecords =
     (case onPredictionData fmt validRecords record' of
        Inl err \<Rightarrow> Inl err
      | Inr validRecords' \<Rightarrow> readPredictionsStream fmt filePath es validRecords')"
| "readPredictionsStream fmt filePath (ParseError m # es) validRecords = Inl (ErrorParsingFile m)"
| "readPredictionsStream fmt filePath (FileError m # es) validRecords = Inl (ErrorReadingFile m)"

text \<open>
  \<open>readPredictionsFile\<close>. The file system maps a path that exists to what its stream
  delivers.
\<close>

definition readPredictionsFile ::
  "(jsval \<Rightarrow> string) \<Rightarrow> (string \<rightharpoonup> jsval list stream_event list) \<Rightarrow> string
     \<Rightarrow> error + WinePredictionRecord list"
where
  "readPredictionsFile fmt fs filePath =
     (case fs filePath of
        None \<Rightarrow> Inl (FileNotFound filePath)
      | Some events \<Rightarrow> readPredictionsStream fmt filePath events [])"

section \<open>step2\_get\_output.ts\<close>

text \<open>
  \<open>WineRecord\<close> as the objects are at run time: every field is copied from the parsed
  row (\<open>header: true\<close>, \<open>dynamicTyping: true\<close>). The fields \<open>winery\<close> and \<open>variety\<close>
  are \<open>wr_winery\<close> and \<open>wr_variety\<close> here.
\<close>

record WineRecord =
  wr_winery :: jsval
  province :: jsval
  country :: jsval
  region_1 :: jsval
  description :: jsval
  taster_name :: jsval
  points :: jsval
  price :: jsval
  wr_variety :: jsval

text \<open>\<open>PredictionResult\<close>, its fields prefixed with \<open>pr_\<close>.\<close>

record PredictionResult =
  pr_recordId :: nat
  pr_model :: string
  pr_prediction :: string
  pr_timestamp :: string
  pr_winery :: jsval
  pr_variety :: jsval
  pr_actual_variety :: jsval

text \<open>\<open>varieties.join(', ')\<close>.\<close>

fun join_comma :: "string list \<Rightarrow> string" where
  "join_comma [] = []"
| "join_comma [v] = v"
| "join_comma (v # vs) = v @ '', '' @ join_comma vs"

definition generatePrompt :: "(jsval \<Rightarrow> string) \<Rightarrow> WineRecord \<Rightarrow> string list \<Rightarrow> string" where
  "generatePrompt fmt record' varieties =
     (let varietyList = join_comma varieties
      in [CHR 0x0A] @
         ''Based on this wine review, guess the grape variety:'' @ [CHR 0x0A] @
         ''This wine is produced by '' @ js_String fmt (wr_winery record') @
         '' in the '' @ js_String fmt (province record') @
         '' region of '' @ js_String fmt (country record') @ ''.'' @ [CHR 0x0A] @
         ''It was grown in '' @ js_String fmt (region_1 record') @
         ''. It is described as: '' @ [CHR 0x22] @ js_String fmt (description record') @
         [CHR 0x22] @ ''.'' @ [CHR 0x0A] @
         ''The wine has been reviewed by '' @ js_String fmt (taster_name record') @
         '' and received '' @ js_String fmt (points record') @ '' points.'' @ [CHR 0x0A] @
         ''The price is '' @ js_String fmt (price record') @ ''.'' @ [CHR 0x0A] @
         [CHR 0x0A] @
         ''Here is a list of possible grape varieties to choose from: '' @ varietyList @
         ''.'' @ [CHR 0x0A] @
         [CHR 0x0A] @
         ''What is the likely grape variety? Answer only with the grape variety name or blend from the list.'' @
         [CHR 0x0A])"

text \<open>
  The remote call \<open>openai.beta.chat.completions.parse\<close>. Its request, and what awaiting
  it gives: a rejection, or a completion whose \<open>choices\<close> carry messages. A message has
  \<open>parsed\<close> (an object with \<open>variety\<close>, or \<open>null\<close>) and \<open>refusal\<close> (a string, or \<open>null\<close>).
\<close>

record 'rf Request =
  req_model :: string
  messages :: "(string \<times> string) list"   \<comment> \<open>role, content\<close>
  response_format :: 'rf
  store :: bool
  metadata :: "(string \<times> string) list option"

record ParsedResponse =
  parsed_variety :: string

record Message =
  parsed :: "ParsedResponse option"
  refusal :: "string option"

datatype remote_outcome = Rejected string | Completion "Message list"

text \<open>
  What \<open>getPrediction\<close> does besides returning: the remote calls (by attempt number)
  and the pauses (\<open>setTimeout(delay)\<close>, in milliseconds), in the order they happen.
  Console output is left out.
\<close>

datatype event = RemoteCall int | Sleep int

text \<open>
  The \<open>try\<close> block of one attempt. \<open>remote\<close> gives, for a request and an attempt
  number, the outcome of that attempt's call. Reading \<open>choices[0].message\<close> of an empty
  \<open>choices\<close> throws inside the block.
\<close>

definition tryPrediction ::
  "('rf Request \<Rightarrow> int \<Rightarrow> remote_outcome) \<Rightarrow> string \<Rightarrow> string \<Rightarrow> 'rf \<Rightarrow> string \<Rightarrow> bool \<Rightarrow> int
     \<Rightarrow> error + string"
where
  "tryPrediction remote model' prompt responseFormat timestamp' storeCompletions attempt =
     (let isBaseModel = (model' = ''gpt-4o'');
          shouldStore = (isBaseModel \<and> storeCompletions);
          messages' =
            [(''system'',
              ''You're a sommelier expert and you know everything about wine. You answer precisely with the name of the variety/blend.''),
             (''user'', prompt)];
          request =
            \<lparr>req_model = model', messages = messages', response_format = responseFormat,
             store = shouldStore,
             metadata =
               (if shouldStore
                then Some [(''purpose'', ''wine_classification''), (''timestamp'', timestamp')]
                else None)\<rparr>
      in case remote request attempt of
           Rejected m \<Rightarrow> Inl (RemoteError m)
         | Completion [] \<Rightarrow> Inl TypeError
         | Completion (message # rest) \<Rightarrow>
             (case parsed message of
                Some p \<Rightarrow> Inr (parsed_variety p)
              | None \<Rightarrow>
                  (case refusal message of
                     Some r \<Rightarrow>
                       if r \<noteq> [] then Inl ModelRefusedToClassify
                       else Inl NoValidResponseReceived
                   | None \<Rightarrow> Inl NoValidResponseReceived)))"

text \<open>
  The \<open>for\<close> loop with its \<open>catch\<close>, from \<open>attempt\<close> on; \<open>body\<close> is the \<open>try\<close> block.
  After the loop comes the trailing \<open>throw new Error('All retries failed')\<close>. The budget
  \<open>retries\<close> is a count and is taken as an integer; every awaited remote call is taken
  to settle.
\<close>

function retryLoop :: "(int \<Rightarrow> error + string) \<Rightarrow> int \<Rightarrow> int \<Rightarrow> (error + string) \<times> event list" where
  "retryLoop body retries attempt =
     (if attempt \<le> retries then
        (case body attempt of
           Inr label \<Rightarrow> (Inr label, [RemoteCall attempt])
         | Inl err \<Rightarrow>
             if attempt = retries then (Inl err, [RemoteCall attempt])
             else
               (let delay = 2 ^ nat attempt * 1000
                in case retryLoop body retries (attempt + 1) of
                     (result, events) \<Rightarrow> (result, RemoteCall attempt # Sleep delay # events)))
      else (Inl AllRetriesFailed, []))"
  by pat_completeness auto
termination
  by (relation "measure (\<lambda>(body, retries, attempt). nat (retries + 1 - attempt))") auto

declare retryLoop.simps [simp del]

definition getPrediction ::
  "('rf Request \<Rightarrow> int \<Rightarrow> remote_outcome) \<Rightarrow> string \<Rightarrow> string \<Rightarrow> 'rf \<Rightarrow> string \<Rightarrow> bool \<Rightarrow> int
     \<Rightarrow> (error + string) \<times> event list"
where
  "getPrediction remote model' prompt responseFormat timestamp' storeCompletions retries =
     retryLoop (tryPrediction remote model' prompt responseFormat timestamp' storeCompletions)
       retries 1"

text \<open>
  The callback that \<open>processBatch\<close> maps over the batch: its own \<open>try\<close>/\<open>catch\<close> turns a
  failure of \<open>getPrediction\<close> into \<open>null\<close>. \<open>getPrediction\<close> is called without \<open>retries\<close>,
  so with the default 3. \<open>remote index\<close> is the remote service as the record at
  \<open>index\<close> meets it, \<open>now index\<close> the clock when its result is built.
\<close>

definition processRecord ::
  "(jsval \<Rightarrow> string) \<Rightarrow> (nat \<Rightarrow> 'rf Request \<Rightarrow> int \<Rightarrow> remote_outcome) \<Rightarrow> (nat \<Rightarrow> string)
     \<Rightarrow> string list \<Rightarrow> nat \<Rightarrow> string \<Rightarrow> string \<Rightarrow> bool \<Rightarrow> 'rf
     \<Rightarrow> WineRecord \<Rightarrow> nat \<Rightarrow> PredictionResult option"
where
  "processRecord fmt remote now varieties startIdx model' timestamp' storeCompletions
       responseFormat record' index =
     (let prompt = generatePrompt fmt record' varieties
      in case fst (getPrediction (remote index) model' prompt responseFormat timestamp'
                     storeCompletions 3) of
           Inr prediction' \<Rightarrow>
             Some \<lparr>pr_recordId = startIdx + index,
                   pr_model = model',
                   pr_prediction = prediction',
                   pr_timestamp = now index,
                   pr_winery = wr_winery record',
                   pr_variety = wr_variety record',
                   pr_actual_variety = wr_variety record'\<rparr>
         | Inl err \<Rightarrow> None)"

text \<open>\<open>records.map((record, index) => ...)\<close>.\<close>

fun map_index :: "('a \<Rightarrow> nat \<Rightarrow> 'b) \<Rightarrow> 'a list \<Rightarrow> nat \<Rightarrow> 'b list" where
  "map_index f [] index = []"
| "map_index f (x # xs) index = f x index # map_index f xs (index + 1)"

text \<open>
  \<open>processBatch\<close>. \<open>varietiesRead\<close> is the outcome of
  \<open>getUniqueVarieties(trainDataPath)\<close>, which is awaited outside every \<open>try\<close>.
  \<open>Promise.all\<close> keeps the order of \<open>promises\<close>, whatever the order in which the limiter
  lets the calls run.
\<close>

definition processBatch ::
  "(jsval \<Rightarrow> string) \<Rightarrow> (nat \<Rightarrow> 'rf Request \<Rightarrow> int \<Rightarrow> remote_outcome) \<Rightarrow> (nat \<Rightarrow> string)
     \<Rightarrow> error + string list
     \<Rightarrow> WineRecord list \<Rightarrow> nat \<Rightarrow> string \<Rightarrow> string \<Rightarrow> bool \<Rightarrow> 'rf
     \<Rightarrow> error + PredictionResult list"
where
  "processBatch fmt remote now varietiesRead records startIdx model' timestamp'
       storeCompletions responseFormat =
     (case varietiesRead of
        Inl err \<Rightarrow> Inl err
      | Inr varieties \<Rightarrow>
          (let batchResults =
                 map_index
                   (processRecord fmt remote now varieties startIdx model' timestamp'
                      storeCompletions responseFormat)
                   records 0
           in Inr (map the (filter (\<lambda>result. result \<noteq> None) batchResults))))"

text \<open>
  The \<open>'data'\<close> handler of \<open>main\<close>: the row is an object keyed by the header's names;
  a key it does not have reads as \<open>undefined\<close>.
\<close>

definition js_field :: "(string \<rightharpoonup> jsval) \<Rightarrow> string \<Rightarrow> jsval" where
  "js_field record' key = (case record' key of None \<Rightarrow> JUndefined | Some v \<Rightarrow> v)"

definition onWineData :: "WineRecord list \<Rightarrow> (string \<rightharpoonup> jsval) \<Rightarrow> WineRecord list" where
  "onWineData validRecords record' =
     (if js_truthy (js_field record' ''winery'') \<and> js_truthy (js_field record' ''variety'') \<and>
         js_truthy (js_field record' ''description'')
      then validRecords @
             [\<lparr>wr_winery = js_field record' ''winery'',
               province = js_field record' ''province'',
               country = js_field record' ''country'',
               region_1 = js_field record' ''region_1'',
               description = js_field record' ''description'',
               taster_name = js_field record' ''taster_name'',
               points = js_field record' ''points'',
               price = js_field record' ''price'',
               wr_variety = js_field record' ''variety''\<rparr>]
      else validRecords)"

text \<open>
  The stream of \<open>main\<close> up to \<open>'end'\<close>: the records the \<open>'end'\<close> handler starts from, or
  the rejection. Of the two \<open>'error'\<close> listeners on the parser the first registered
  settles the promise.
\<close>

fun readWineStream ::
  "(string \<rightharpoonup> jsval) stream_event list \<Rightarrow> WineRecord list \<Rightarrow> error + WineRecord list"
where
  "readWineStream [] validRecords = Inr validRecords"
| "readWineStream (Data record' # es) validRecords =
     readWineStream es (onWineData validRecords record')"
| "readWineStream (FileError m # es) validRecords = Inl (FileStreamError m)"
| "readWineStream (ParseError m # es) validRecords = Inl (ParseStreamError m)"

definition sampleRecords :: "'a list \<Rightarrow> int \<Rightarrow> 'a list" where
  "sampleRecords records numSamples =
     (if numSamples = -1 then js_slice records 0 (int (length records))
      else js_slice records 0 numSamples)"

definition REQUESTS_PER_MINUTE :: nat where
  "REQUESTS_PER_MINUTE = 200"

definition BATCH_SIZE :: nat where
  "BATCH_SIZE = nat \<lfloor>(of_nat REQUESTS_PER_MINUTE :: rat) / 4\<rfloor>"

text \<open>
  The batch loop of \<open>main\<close>, from index \<open>i\<close> on: each turn passes
  \<open>sampledRecords.slice(i, i + BATCH_SIZE)\<close> and \<open>i\<close> to \<open>processBatch\<close>. The list holds,
  in order, these pairs of start index and batch.
\<close>

function mainBatches :: "'a list \<Rightarrow> nat \<Rightarrow> (nat \<times> 'a list) list" where
  "mainBatches sampledRecords i =
     (if i < length sampledRecords
      then (i, js_slice sampledRecords (int i) (int (i + BATCH_SIZE)))
             # mainBatches sampledRecords (i + BATCH_SIZE)
      else [])"
  by pat_completeness auto
termination
  by (relation "measure (\<lambda>(sampledRecords, i). length sampledRecords - i)")
     (auto simp add: BATCH_SIZE_def REQUESTS_PER_MINUTE_def)

declare mainBatches.simps [simp del]

text \<open>\<open>Math.ceil(sampledRecords.length / BATCH_SIZE)\<close>, the \<open>totalBatches\<close> the loop prints.\<close>

definition totalBatches :: "'a list \<Rightarrow> int" where
  "totalBatches sampledRecords =
     \<lceil>(of_nat (length sampledRecords) :: rat) / of_nat BATCH_SIZE\<rceil>"

section \<open>run\_evaluation.ts: the command-line handler\<close>

record EvaluationConfig =
  comparisonModel :: string
  datasets :: "string list"
  numSamples :: int

text \<open>\<open>process.argv[k]\<close>: a string, or \<open>undefined\<close> past the end.\<close>

definition argv_at :: "string list \<Rightarrow> nat \<Rightarrow> string option" where
  "argv_at argv k = (if k < length argv then Some (argv ! k) else None)"

text \<open>\<open>a || d\<close> for \<open>a\<close> a string or \<open>undefined\<close>: the empty string is falsy too.\<close>

definition or_default :: "string option \<Rightarrow> string \<Rightarrow> string" where
  "or_default a d = (case a of None \<Rightarrow> d | Some s \<Rightarrow> if s \<noteq> [] then s else d)"

text \<open>\<open>s.split(',')\<close>.\<close>

fun split_comma :: "string \<Rightarrow> string list" where
  "split_comma [] = [[]]"
| "split_comma (c # cs) =
     (if c = CHR '','' then [] # split_comma cs
      else (case split_comma cs of
              w # ws \<Rightarrow> (c # w) # ws
            | [] \<Rightarrow> [[c]]))"

text \<open>What the handler does, in order.\<close>

datatype cli_effect =
    ConsoleError string "error option"
  | ProcessExit int
  | RunEvaluation EvaluationConfig

text \<open>
  The handler, which runs when the module is the entry point. \<open>parseInt\<close> is the language's (\<open>None\<close> for \<open>NaN\<close>; \<open>parseInt(undefined)\<close>
  is \<open>NaN\<close>); \<open>runEvaluation\<close> gives the error the pipeline's promise rejects with, if
  it does. \<open>process.exit\<close> ends the process, so nothing follows it.
\<close>

definition cli_handler ::
  "(string \<Rightarrow> int option) \<Rightarrow> (EvaluationConfig \<Rightarrow> error option) \<Rightarrow> string list
     \<Rightarrow> cli_effect list"
where
  "cli_handler parseInt runEvaluation argv =
     (let model' = or_default (argv_at argv 2) ''gpt-4o-mini'';
          datasetsArg = or_default (argv_at argv 3) ''train,validation'';
          parsed' = (case argv_at argv 4 of None \<Rightarrow> None | Some s \<Rightarrow> parseInt s);
          numSamples' = (case parsed' of None \<Rightarrow> 3 | Some n \<Rightarrow> if n \<noteq> 0 then n else 3)
      in if model' = [] then
           [ConsoleError ''Please provide a comparison model name'' None, ProcessExit 1]
         else
           (let datasets' = split_comma datasetsArg;
                config = \<lparr>comparisonModel = model', datasets = datasets',
                          numSamples = numSamples'\<rparr>
            in RunEvaluation config #
               (case runEvaluation config of
                  None \<Rightarrow> []
                | Some err \<Rightarrow>
                    [ConsoleError ''Error during evaluation:'' (Some err), ProcessExit 1])))"

section \<open>Notions the properties are stated with\<close>

text \<open>A prediction is a mismatch when it differs from the ground-truth label.\<close>

definition mismatch :: "WinePredictionRecord \<Rightarrow> bool" where
  "mismatch p = (prediction p \<noteq> actual_variety p)"

text \<open>The example \<open>calculateWineAccuracy\<close> keeps of a mismatched prediction.\<close>

definition example_of :: "WinePredictionRecord \<Rightarrow> IncorrectExample" where
  "example_of p = \<lparr>ex_winery = winery p, predicted = prediction p, actual = actual_variety p\<rparr>"

text \<open>
  The events of the failed attempts \<open>first\<close> to \<open>last'\<close>, each followed by its pause
  before the next attempt: \<open>2 ^ attempt * 1000\<close> milliseconds, that is \<open>2 ^ attempt\<close>
  seconds.
\<close>

definition backoff :: "int \<Rightarrow> int \<Rightarrow> event list" where
  "backoff first last' =
     concat (map (\<lambda>a. [RemoteCall a, Sleep (2 ^ nat a * 1000)]) [first..last'])"

text \<open>
  The remote call returns an explicit refusal: the first choice's message has no parsed
  payload and a non-empty \<open>refusal\<close>.
\<close>

fun explicit_refusal :: "remote_outcome \<Rightarrow> bool" where
  "explicit_refusal (Completion (message # rest)) =
     (parsed message = None \<and> (case refusal message of Some r \<Rightarrow> r \<noteq> [] | None \<Rightarrow> False))"
| "explicit_refusal other = False"

text \<open>
  What \<open>getPrediction\<close> gives for the record at position \<open>i\<close> of a batch, and the result
  \<open>processBatch\<close> builds for it when that is a label.
\<close>

definition predicted_label ::
  "(jsval \<Rightarrow> string) \<Rightarrow> (nat \<Rightarrow> 'rf Request \<Rightarrow> int \<Rightarrow> remote_outcome) \<Rightarrow> string list
     \<Rightarrow> string \<Rightarrow> string \<Rightarrow> bool \<Rightarrow> 'rf \<Rightarrow> WineRecord list \<Rightarrow> nat \<Rightarrow> error + string"
where
  "predicted_label fmt remote varieties model' timestamp' storeCompletions responseFormat records i =
     fst (getPrediction (remote i) model' (generatePrompt fmt (records ! i) varieties)
            responseFormat timestamp' storeCompletions 3)"

definition result_for ::
  "(nat \<Rightarrow> string) \<Rightarrow> nat \<Rightarrow> string \<Rightarrow> WineRecord list \<Rightarrow> (nat \<Rightarrow> error + string) \<Rightarrow> nat
     \<Rightarrow> PredictionResult"
where
  "result_for now startIdx model' records label i =
     \<lparr>pr_recordId = startIdx + i,
      pr_model = model',
      pr_prediction = projr (label i),
      pr_timestamp = now i,
      pr_winery = wr_winery (records ! i),
      pr_variety = wr_variety (records ! i),
      pr_actual_variety = wr_variety (records ! i)\<rparr>"








text \<open>
  The timestamp cell of a row is readable when it is not an invalid date; the record
  the \<open>'data'\<close> handler of \<open>readPredictionsFile\<close> then builds from the row.
\<close>

definition timestampReadable :: "jsval list \<Rightarrow> bool" where
  "timestampReadable row = (js_index row 3 \<noteq> JInvalidDate)"


section \<open>Concrete inputs\<close>

definition p_ok :: WinePredictionRecord where
  "p_ok = \<lparr>recordId = JNum 0, model = JStr ''gpt-4o'', prediction = ''Merlot'',
           timestamp = ''2024-11-03T10:00:00.000Z'', winery = ''Alpha'', variety = ''Merlot'',
           actual_variety = ''Merlot''\<rparr>"

definition p_bad :: "nat \<Rightarrow> WinePredictionRecord" where
  "p_bad k = \<lparr>recordId = JNum (of_nat k), model = JStr ''gpt-4o'', prediction = ''Syrah'',
           timestamp = ''2024-11-03T10:00:00.000Z'', winery = replicate k (CHR ''w''),
           variety = ''Merlot'', actual_variety = ''Merlot''\<rparr>"

definition always_rejects :: "unit Request \<Rightarrow> int \<Rightarrow> remote_outcome" where
  "always_rejects request attempt = Rejected ''503''"

definition never_answers :: "unit Request \<Rightarrow> int \<Rightarrow> remote_outcome" where
  "never_answers request attempt = Completion [\<lparr>parsed = None, refusal = None\<rparr>]"

definition fails_twice :: "unit Request \<Rightarrow> int \<Rightarrow> remote_outcome" where
  "fails_twice request attempt =
     (if attempt \<le> 2 then Completion [\<lparr>parsed = None, refusal = None\<rparr>]
      else Completion [\<lparr>parsed = Some \<lparr>parsed_variety = ''Riesling''\<rparr>, refusal = None\<rparr>])"

definition refusal_message :: Message where
  "refusal_message = \<lparr>parsed = None, refusal = Some ''I cannot help with that''\<rparr>"

definition always_refuses :: "unit Request \<Rightarrow> int \<Rightarrow> remote_outcome" where
  "always_refuses request attempt = Completion [refusal_message]"

definition refuses_once :: "unit Request \<Rightarrow> int \<Rightarrow> remote_outcome" where
  "refuses_once request attempt =
     (if attempt = 1 then Completion [refusal_message]
      else Completion [\<lparr>parsed = Some \<lparr>parsed_variety = ''Merlot''\<rparr>, refusal = None\<rparr>])"

definition wine :: "string \<Rightarrow> WineRecord" where
  "wine name =
     \<lparr>wr_winery = JStr name, province = JStr ''Bordeaux'', country = JStr ''France'',
      region_1 = JNull, description = JStr ''Ripe and round'', taster_name = JStr ''Roger Voss'',
      points = JNum 90, price = JNum 25, wr_variety = JStr ''Merlot''\<rparr>"

definition second_fails :: "nat \<Rightarrow> unit Request \<Rightarrow> int \<Rightarrow> remote_outcome" where
  "second_fails index request attempt =
     (if index = 1 then Rejected ''429''
      else Completion [\<lparr>parsed = Some \<lparr>parsed_variety = ''Merlot''\<rparr>, refusal = None\<rparr>])"

definition fmt0 :: "jsval \<Rightarrow> string" where
  "fmt0 v = ''?''"

definition clock0 :: "nat \<Rightarrow> string" where
  "clock0 index = ''2024-11-03T10:00:00.000Z''"



section \<open>Properties of the accuracy calculation\<close>

lemma accuracy_loop_eq:
  "accuracy_loop ps c inc =
     (c + length (filter (\<lambda>p. \<not> mismatch p) ps), inc @ map example_of (filter mismatch ps))"
  by (induction ps arbitrary: c inc) (simp_all add: mismatch_def example_of_def)

lemma js_slice_take: "js_slice xs 0 (int n) = take n xs"
  by (simp add: js_slice_def Let_def min_def)

lemma calculateWineAccuracy_nonempty:
  assumes "predictions \<noteq> []"
  shows "calculateWineAccuracy predictions =
           Inr \<lparr>res_model = model (hd predictions),
                totalPredictions = length predictions,
                correctPredictions = length (filter (\<lambda>p. \<not> mismatch p) predictions),
                accuracy = of_nat (length (filter (\<lambda>p. \<not> mismatch p) predictions))
                             / of_nat (length predictions),
                incorrectExamples = take 5 (map example_of (filter mismatch predictions))\<rparr>"
proof -
  have "js_slice (map example_of (filter mismatch predictions)) 0 5
          = take 5 (map example_of (filter mismatch predictions))"
    using js_slice_take [of _ 5] by simp
  with assms show ?thesis
    by (simp add: calculateWineAccuracy_def accuracy_loop_eq hd_conv_nth)
qed

text \<open>
  C4. On an empty prediction list \<open>calculateWineAccuracy\<close> fails with the error
  'No predictions to analyze'; it returns no result, so no numeric accuracy.
\<close>

theorem calculateWineAccuracy_empty_fails:
  "calculateWineAccuracy [] = Inl NoPredictionsToAnalyze"
  by (simp add: calculateWineAccuracy_def)

text \<open>
  C5. For a non-empty prediction list \<open>calculateWineAccuracy\<close> returns a result whose
  accuracy is \<open>correctPredictions / totalPredictions\<close>, with \<open>totalPredictions\<close> the length
  of the list and \<open>correctPredictions\<close> the number of predictions equal to their
  ground-truth label. The accuracy lies in \<open>[0, 1]\<close>; it is 1 when every prediction equals
  its label and 0 when none does.
\<close>

theorem calculateWineAccuracy_accuracy:
  assumes "predictions \<noteq> []"
  shows "\<exists>r. calculateWineAccuracy predictions = Inr r
     \<and> totalPredictions r = length predictions
     \<and> correctPredictions r = length (filter (\<lambda>p. prediction p = actual_variety p) predictions)
     \<and> accuracy r = of_nat (correctPredictions r) / of_nat (totalPredictions r)
     \<and> 0 \<le> accuracy r \<and> accuracy r \<le> 1
     \<and> ((\<forall>p\<in>set predictions. prediction p = actual_variety p) \<longrightarrow> accuracy r = 1)
     \<and> ((\<forall>p\<in>set predictions. prediction p \<noteq> actual_variety p) \<longrightarrow> accuracy r = 0)"
proof -
  let ?c = "length (filter (\<lambda>p. \<not> mismatch p) predictions)"
  let ?n = "length predictions"
  have n: "0 < ?n" using assms by simp
  have le: "?c \<le> ?n" by (rule length_filter_le)
  have c: "?c = length (filter (\<lambda>p. prediction p = actual_variety p) predictions)"
    by (simp add: mismatch_def)
  have range: "0 \<le> (of_nat ?c :: rat) / of_nat ?n" "(of_nat ?c :: rat) / of_nat ?n \<le> 1"
    using n le by (simp_all add: divide_le_eq_1)
  have all: "(of_nat ?c :: rat) / of_nat ?n = 1"
    if "\<forall>p\<in>set predictions. prediction p = actual_variety p"
  proof -
    from that have "filter (\<lambda>p. \<not> mismatch p) predictions = predictions"
      by (simp add: mismatch_def)
    then show ?thesis using n by simp
  qed
  have none: "(of_nat ?c :: rat) / of_nat ?n = 0"
    if "\<forall>p\<in>set predictions. prediction p \<noteq> actual_variety p"
  proof -
    from that have "filter (\<lambda>p. \<not> mismatch p) predictions = []"
      by (simp add: mismatch_def)
    then show ?thesis by simp
  qed
  show ?thesis
    unfolding calculateWineAccuracy_nonempty [OF assms]
    using range all none c by simp
qed

theorem calculateWineAccuracy_accuracy_witness:
  "(\<exists>r. calculateWineAccuracy [p_ok] = Inr r \<and> accuracy r = 1) \<and>
   (\<exists>r. calculateWineAccuracy [p_bad 0] = Inr r \<and> accuracy r = 0) \<and>
   (\<exists>r. calculateWineAccuracy [p_ok, p_bad 0] = Inr r \<and> accuracy r = 1 / 2)"
  using calculateWineAccuracy_accuracy [of "[p_ok]"]
        calculateWineAccuracy_accuracy [of "[p_bad 0]"]
        calculateWineAccuracy_accuracy [of "[p_ok, p_bad 0]"]
  by (auto simp add: p_ok_def p_bad_def)

text \<open>
  C9. For a non-empty prediction list, \<open>incorrectExamples\<close> holds the examples of the first
  \<open>min 5 (number of mismatches)\<close> mismatched predictions, in the order of the input list.
\<close>

theorem calculateWineAccuracy_incorrectExamples:
  assumes "predictions \<noteq> []"
  shows "\<exists>r. calculateWineAccuracy predictions = Inr r
     \<and> incorrectExamples r =
         take (min 5 (length (filter mismatch predictions)))
           (map example_of (filter mismatch predictions))
     \<and> length (incorrectExamples r) = min 5 (length (filter mismatch predictions))"
  unfolding calculateWineAccuracy_nonempty [OF assms]
  by (simp add: min_def)

theorem calculateWineAccuracy_incorrectExamples_witness:
  "(\<exists>r. calculateWineAccuracy [p_bad 1, p_ok, p_bad 2, p_bad 3, p_bad 4, p_bad 5, p_ok, p_bad 6] = Inr r
      \<and> incorrectExamples r = map example_of [p_bad 1, p_bad 2, p_bad 3, p_bad 4, p_bad 5]) \<and>
   (\<exists>r. calculateWineAccuracy [p_ok, p_bad 1] = Inr r
      \<and> incorrectExamples r = [example_of (p_bad 1)])"
  using calculateWineAccuracy_incorrectExamples [of "[p_bad 1, p_ok, p_bad 2, p_bad 3, p_bad 4, p_bad 5, p_ok, p_bad 6]"]
        calculateWineAccuracy_incorrectExamples [of "[p_ok, p_bad 1]"]
  by (auto simp add: p_ok_def p_bad_def mismatch_def)

section \<open>Properties of the retry loop\<close>

lemma retryLoop_past: "retries < attempt \<Longrightarrow> retryLoop body retries attempt = (Inl AllRetriesFailed, [])"
  by (simp add: retryLoop.simps)

lemma retryLoop_success:
  "attempt \<le> retries \<Longrightarrow> body attempt = Inr l \<Longrightarrow>
     retryLoop body retries attempt = (Inr l, [RemoteCall attempt])"
  by (simp add: retryLoop.simps [of body retries attempt])

lemma retryLoop_last:
  "body retries = Inl e \<Longrightarrow> retryLoop body retries retries = (Inl e, [RemoteCall retries])"
  by (simp add: retryLoop.simps [of body retries retries])

lemma retryLoop_retry:
  "attempt < retries \<Longrightarrow> isl (body attempt) \<Longrightarrow>
     retryLoop body retries attempt =
       (fst (retryLoop body retries (attempt + 1)),
        RemoteCall attempt # Sleep (2 ^ nat attempt * 1000) #
          snd (retryLoop body retries (attempt + 1)))"
  by (cases "body attempt")
     (simp_all add: retryLoop.simps [of body retries attempt] Let_def split: prod.splits)

lemma backoff_empty: "last' < first \<Longrightarrow> backoff first last' = []"
  by (simp add: backoff_def)

lemma backoff_step:
  "first \<le> last' \<Longrightarrow>
     backoff first last' = RemoteCall first # Sleep (2 ^ nat first * 1000) # backoff (first + 1) last'"
  by (simp add: backoff_def upto_rec1)

lemma retryLoop_skip_failures:
  "attempt \<le> a \<Longrightarrow> a \<le> retries \<Longrightarrow> (\<forall>b. attempt \<le> b \<and> b < a \<longrightarrow> isl (body b)) \<Longrightarrow>
     retryLoop body retries attempt =
       (fst (retryLoop body retries a), backoff attempt (a - 1) @ snd (retryLoop body retries a))"
proof (induction body retries attempt rule: retryLoop.induct)
  case (1 body retries attempt)
  show ?case
  proof (cases "attempt = a")
    case True
    then show ?thesis by (simp add: backoff_empty)
  next
    case False
    with "1.prems" have lt: "attempt < a" and ltr: "attempt < retries" and f: "isl (body attempt)"
      by auto
    from f obtain err where err: "body attempt = Inl err" by (cases "body attempt") auto
    have ih: "retryLoop body retries (attempt + 1) =
        (fst (retryLoop body retries a), backoff (attempt + 1) (a - 1) @ snd (retryLoop body retries a))"
      using "1.IH" [OF _ err _ refl] "1.prems" lt ltr by auto
    show ?thesis
      using retryLoop_retry [of attempt retries body] ltr f ih backoff_step [of attempt "a - 1"] lt
      by simp
  qed
qed

lemma retryLoop_result:
  "attempt \<le> retries \<Longrightarrow>
     \<exists>a. attempt \<le> a \<and> a \<le> retries \<and> fst (retryLoop body retries attempt) = body a \<and>
         (isl (body a) \<longrightarrow> a = retries) \<and> (\<forall>b. attempt \<le> b \<and> b < a \<longrightarrow> isl (body b))"
proof (induction body retries attempt rule: retryLoop.induct)
  case (1 body retries attempt)
  show ?case
  proof (cases "body attempt")
    case (Inr l)
    with "1.prems" show ?thesis
      by (intro exI [of _ attempt]) (auto simp add: retryLoop_success)
  next
    case (Inl err)
    show ?thesis
    proof (cases "attempt = retries")
      case True
      with Inl show ?thesis
        by (intro exI [of _ attempt]) (auto simp add: retryLoop_last)
    next
      case False
      with "1.prems" have ltr: "attempt < retries" by simp
      from "1.IH" [OF _ Inl False refl] "1.prems" ltr
      obtain a where a: "attempt + 1 \<le> a" "a \<le> retries"
        "fst (retryLoop body retries (attempt + 1)) = body a"
        "isl (body a) \<longrightarrow> a = retries" "\<forall>b. attempt + 1 \<le> b \<and> b < a \<longrightarrow> isl (body b)"
        by auto
      have "\<forall>b. attempt \<le> b \<and> b < a \<longrightarrow> isl (body b)"
      proof (intro allI impI)
        fix b assume b: "attempt \<le> b \<and> b < a"
        show "isl (body b)"
        proof (cases "b = attempt")
          case True then show ?thesis using Inl by simp
        next
          case False with b a(5) show ?thesis by auto
        qed
      qed
      with a show ?thesis
        using retryLoop_retry [of attempt retries body] ltr Inl
        by (intro exI [of _ a]) simp
    qed
  qed
qed

lemma tryPrediction_errors:
  "tryPrediction remote m p rf ts sc a = Inl err \<Longrightarrow>
     err = ModelRefusedToClassify \<or> err = NoValidResponseReceived \<or> err = TypeError \<or>
     (\<exists>msg. err = RemoteError msg)"
  by (auto simp add: tryPrediction_def Let_def
           split: remote_outcome.splits list.splits option.splits if_splits)

lemma tryPrediction_explicit_refusal:
  assumes "\<forall>req. explicit_refusal (remote req a)"
  shows "tryPrediction remote m p rf ts sc a = Inl ModelRefusedToClassify"
proof -
  let ?req = "\<lparr>req_model = m,
      messages = [(''system'',
              ''You're a sommelier expert and you know everything about wine. You answer precisely with the name of the variety/blend.''),
             (''user'', p)], response_format = rf,
             store = (m = ''gpt-4o'' \<and> sc),
             metadata =
               (if m = ''gpt-4o'' \<and> sc
                then Some [(''purpose'', ''wine_classification''), (''timestamp'', ts)]
                else None)\<rparr>"
  from assms have "explicit_refusal (remote ?req a)" by blast
  then show ?thesis
    unfolding tryPrediction_def Let_def
    by (cases "remote ?req a" rule: explicit_refusal.cases)
       (auto split: option.splits)
qed

lemma getPrediction_characterisation:
  assumes "1 \<le> retries"
  shows "\<exists>a. 1 \<le> a \<and> a \<le> retries \<and>
           getPrediction remote m p rf ts sc retries =
             (tryPrediction remote m p rf ts sc a, backoff 1 (a - 1) @ [RemoteCall a]) \<and>
           (isl (tryPrediction remote m p rf ts sc a) \<longrightarrow> a = retries) \<and>
           (\<forall>b. 1 \<le> b \<and> b < a \<longrightarrow> isl (tryPrediction remote m p rf ts sc b))"
proof -
  let ?body = "tryPrediction remote m p rf ts sc"
  from retryLoop_result [OF assms, of ?body]
  obtain a where a: "1 \<le> a" "a \<le> retries" "fst (retryLoop ?body retries 1) = ?body a"
    "isl (?body a) \<longrightarrow> a = retries" "\<forall>b. 1 \<le> b \<and> b < a \<longrightarrow> isl (?body b)"
    by blast
  have last: "retryLoop ?body retries a = (?body a, [RemoteCall a])"
  proof (cases "?body a")
    case (Inl err)
    with a(4) have "a = retries" by simp
    with Inl show ?thesis by (simp add: retryLoop_last)
  next
    case (Inr l)
    with a(2) show ?thesis by (simp add: retryLoop_success)
  qed
  have "retryLoop ?body retries 1 = (?body a, backoff 1 (a - 1) @ [RemoteCall a])"
    using retryLoop_skip_failures [OF a(1) a(2) a(5)] last by simp
  with a show ?thesis
    unfolding getPrediction_def by blast
qed

lemma getPrediction_no_budget:
  "retries < 1 \<Longrightarrow> getPrediction remote m p rf ts sc retries = (Inl AllRetriesFailed, [])"
  by (simp add: getPrediction_def retryLoop_past)

text \<open>
  C1, as the code has it. A refusal is not terminal: it is thrown inside the \<open>try\<close> block
  and caught by the loop's own \<open>catch\<close>, like every other failure. When the attempts
  before attempt \<open>a\<close> failed and the remote call refuses at attempt \<open>a\<close>, that attempt
  fails with 'Model refused to classify'. \<open>getPrediction\<close> then fails with this error
  at once only when \<open>a\<close> is the last attempt of the budget (so after a single attempt
  only when the budget is 1); when attempts remain it pauses \<open>2 ^ a\<close> seconds and goes
  on with attempt \<open>a + 1\<close>.
\<close>

theorem getPrediction_refusal_retried:
  assumes "1 \<le> a" and "a \<le> retries"
    and "\<forall>b. 1 \<le> b \<and> b < a \<longrightarrow> isl (tryPrediction remote m p rf ts sc b)"
    and "\<forall>req. explicit_refusal (remote req a)"
  shows "tryPrediction remote m p rf ts sc a = Inl ModelRefusedToClassify \<and>
         (a = retries \<longrightarrow>
            getPrediction remote m p rf ts sc retries =
              (Inl ModelRefusedToClassify, backoff 1 (a - 1) @ [RemoteCall a])) \<and>
         (a < retries \<longrightarrow>
            getPrediction remote m p rf ts sc retries =
              (fst (retryLoop (tryPrediction remote m p rf ts sc) retries (a + 1)),
               backoff 1 (a - 1) @ [RemoteCall a, Sleep (2 ^ nat a * 1000)] @
                 snd (retryLoop (tryPrediction remote m p rf ts sc) retries (a + 1))))"
proof -
  let ?body = "tryPrediction remote m p rf ts sc"
  have refused: "?body a = Inl ModelRefusedToClassify"
    using assms(4) by (rule tryPrediction_explicit_refusal)
  have skip: "retryLoop ?body retries 1 =
      (fst (retryLoop ?body retries a), backoff 1 (a - 1) @ snd (retryLoop ?body retries a))"
    using retryLoop_skip_failures [OF assms(1) assms(2) assms(3)] .
  have last: "getPrediction remote m p rf ts sc retries =
      (Inl ModelRefusedToClassify, backoff 1 (a - 1) @ [RemoteCall a])" if "a = retries"
    using that skip retryLoop_last [of ?body retries ModelRefusedToClassify] refused
    by (simp add: getPrediction_def)
  have more: "getPrediction remote m p rf ts sc retries =
      (fst (retryLoop ?body retries (a + 1)),
       backoff 1 (a - 1) @ [RemoteCall a, Sleep (2 ^ nat a * 1000)] @
         snd (retryLoop ?body retries (a + 1)))" if "a < retries"
    using that skip retryLoop_retry [of a retries ?body] refused
    by (simp add: getPrediction_def)
  from refused last more show ?thesis by blast
qed

theorem getPrediction_refusal_retried_witness:
  "getPrediction always_refuses ''gpt-4o'' ''prompt'' () ''01-01-00-00'' True 2 =
     (Inl ModelRefusedToClassify, [RemoteCall 1, Sleep 2000, RemoteCall 2]) \<and>
   getPrediction always_refuses ''gpt-4o'' ''prompt'' () ''01-01-00-00'' True 1 =
     (Inl ModelRefusedToClassify, [RemoteCall 1])"
  using getPrediction_refusal_retried
          [of 1 2 always_refuses "''gpt-4o''" "''prompt''" "()" "''01-01-00-00''" True]
        getPrediction_refusal_retried
          [of 1 1 always_refuses "''gpt-4o''" "''prompt''" "()" "''01-01-00-00''" True]
  by (auto simp add: always_refuses_def refusal_message_def backoff_def retryLoop_last
        tryPrediction_def)

text \<open>
  The claim C1 as stated fails: with a budget of 3, a refusal at the first attempt is
  followed by a pause of 2 seconds and a second attempt, whose label is returned.
\<close>

theorem getPrediction_refusal_counterexample:
  "explicit_refusal (Completion [refusal_message]) \<and>
   getPrediction refuses_once ''gpt-4o-mini'' ''prompt'' () ''01-01-00-00'' False 3 =
     (Inr ''Merlot'', [RemoteCall 1, Sleep 2000, RemoteCall 2])"
  by (simp add: refuses_once_def refusal_message_def getPrediction_def tryPrediction_def
        retryLoop_retry retryLoop_success)

text \<open>
  C2, as the code has it. For a budget \<open>retries \<ge> 1\<close>, when every attempt fails,
  \<open>getPrediction\<close> returns no label and raises the error that the last attempt threw,
  which the \<open>catch\<close> rethrows at \<open>attempt === retries\<close>; that error is never the
  'All retries failed' error of the trailing \<open>throw\<close>. It made \<open>retries\<close> remote calls
  and paused \<open>2 ^ attempt\<close> seconds after each failed attempt but the last.
\<close>

theorem getPrediction_all_attempts_fail:
  assumes "1 \<le> retries"
    and "\<forall>a. 1 \<le> a \<and> a \<le> retries \<longrightarrow> isl (tryPrediction remote m p rf ts sc a)"
  shows "\<exists>err. tryPrediction remote m p rf ts sc retries = Inl err \<and>
           err \<noteq> AllRetriesFailed \<and>
           getPrediction remote m p rf ts sc retries =
             (Inl err, backoff 1 (retries - 1) @ [RemoteCall retries])"
proof -
  let ?body = "tryPrediction remote m p rf ts sc"
  from assms obtain err where err: "?body retries = Inl err"
    by (cases "?body retries") auto
  have own: "err \<noteq> AllRetriesFailed"
    using tryPrediction_errors [OF err] by auto
  have "\<forall>b. 1 \<le> b \<and> b < retries \<longrightarrow> isl (?body b)"
    using assms(2) by simp
  from retryLoop_skip_failures [OF assms(1) order_refl this]
  have "retryLoop ?body retries 1 = (Inl err, backoff 1 (retries - 1) @ [RemoteCall retries])"
    using retryLoop_last [of ?body retries err] err by simp
  with err own show ?thesis
    unfolding getPrediction_def by blast
qed

theorem getPrediction_all_attempts_fail_witness:
  "getPrediction always_rejects ''gpt-4o'' ''prompt'' () ''01-01-00-00'' True 3 =
     (Inl (RemoteError ''503''),
      [RemoteCall 1, Sleep 2000, RemoteCall 2, Sleep 4000, RemoteCall 3])"
  using getPrediction_all_attempts_fail
          [of 3 always_rejects "''gpt-4o''" "''prompt''" "()" "''01-01-00-00''" True]
  by (simp add: tryPrediction_def always_rejects_def backoff_def upto.simps)

text \<open>
  The claim C2 as stated fails: with a budget of 2 and a remote call that never gives a
  parsed payload, both attempts fail and the error raised is 'No valid response
  received', the second attempt's own, not the exhausted-retries error
  'All retries failed'.
\<close>

theorem getPrediction_exhausted_error_counterexample:
  "isl (tryPrediction never_answers ''gpt-4o'' ''prompt'' () ''01-01-00-00'' True 1) \<and>
   isl (tryPrediction never_answers ''gpt-4o'' ''prompt'' () ''01-01-00-00'' True 2) \<and>
   getPrediction never_answers ''gpt-4o'' ''prompt'' () ''01-01-00-00'' True 2 =
     (Inl NoValidResponseReceived, [RemoteCall 1, Sleep 2000, RemoteCall 2]) \<and>
   fst (getPrediction never_answers ''gpt-4o'' ''prompt'' () ''01-01-00-00'' True 2) \<noteq>
     Inl AllRetriesFailed"
  by (simp add: never_answers_def getPrediction_def tryPrediction_def
        retryLoop_retry retryLoop_last)

text \<open>
  C10. For a budget \<open>retries \<ge> 1\<close> the trailing \<open>throw new Error('All retries failed')\<close>
  is never reached: \<open>getPrediction\<close> (a total function, so it always terminates) ends
  inside the loop, at some attempt \<open>a\<close> within the budget, with what that attempt's
  \<open>try\<close> block gave: its label, or its error, and an error only at the last attempt.
\<close>

theorem getPrediction_trailing_throw_unreachable:
  assumes "1 \<le> retries"
  shows "fst (getPrediction remote m p rf ts sc retries) \<noteq> Inl AllRetriesFailed \<and>
         (\<exists>a. 1 \<le> a \<and> a \<le> retries \<and>
              fst (getPrediction remote m p rf ts sc retries) = tryPrediction remote m p rf ts sc a \<and>
              (isl (tryPrediction remote m p rf ts sc a) \<longrightarrow> a = retries))"
proof -
  from getPrediction_characterisation [OF assms, of remote m p rf ts sc]
  obtain a where a: "1 \<le> a" "a \<le> retries"
    "getPrediction remote m p rf ts sc retries =
       (tryPrediction remote m p rf ts sc a, backoff 1 (a - 1) @ [RemoteCall a])"
    "isl (tryPrediction remote m p rf ts sc a) \<longrightarrow> a = retries"
    by blast
  have "tryPrediction remote m p rf ts sc a \<noteq> Inl AllRetriesFailed"
    using tryPrediction_errors [of remote m p rf ts sc a AllRetriesFailed] by auto
  with a show ?thesis by auto
qed

theorem getPrediction_trailing_throw_unreachable_witness:
  "getPrediction fails_twice ''gpt-4o'' ''prompt'' () ''01-01-00-00'' True 3 =
     (Inr ''Riesling'', [RemoteCall 1, Sleep 2000, RemoteCall 2, Sleep 4000, RemoteCall 3]) \<and>
   fst (getPrediction always_rejects ''gpt-4o'' ''prompt'' () ''01-01-00-00'' True 1) =
     Inl (RemoteError ''503'')"
  using getPrediction_trailing_throw_unreachable
          [of 3 fails_twice "''gpt-4o''" "''prompt''" "()" "''01-01-00-00''" True]
        getPrediction_trailing_throw_unreachable
          [of 1 always_rejects "''gpt-4o''" "''prompt''" "()" "''01-01-00-00''" True]
  by (simp add: fails_twice_def always_rejects_def getPrediction_def tryPrediction_def
        retryLoop_retry retryLoop_success retryLoop_last)

section \<open>Properties of batch processing\<close>

lemma map_index_eq: "map_index f xs k = map (\<lambda>i. f (xs ! i) (k + i)) [0..<length xs]"
proof (induction xs arbitrary: k)
  case Nil
  then show ?case by simp
next
  case (Cons x xs)
  have "[0..<length (x # xs)] = 0 # map Suc [0..<length xs]"
    by (simp add: upt_conv_Cons map_Suc_upt del: upt_Suc)
  then have "map (\<lambda>i. f ((x # xs) ! i) (k + i)) [0..<length (x # xs)] =
        f x k # map (\<lambda>i. f (xs ! i) (Suc k + i)) [0..<length xs]"
    by (simp add: o_def del: upt_Suc)
  with Cons show ?case by simp
qed

lemma processRecord_cases:
  "processRecord fmt remote now varieties startIdx m ts sc rf (records ! i) i =
     (if isl (predicted_label fmt remote varieties m ts sc rf records i) then None
      else Some (result_for now startIdx m records
                   (predicted_label fmt remote varieties m ts sc rf records) i))"
  by (cases "predicted_label fmt remote varieties m ts sc rf records i")
     (auto simp add: processRecord_def predicted_label_def result_for_def Let_def)

text \<open>
  C7. When the varieties were read, \<open>processBatch\<close> maps the record at each position to
  \<open>null\<close> (\<open>None\<close>) if \<open>getPrediction\<close> fails for it and to its prediction result
  otherwise, and returns the results of the positions that succeeded, in the order of
  the records. Whatever the remote service does, the batch returns: a record's failure
  removes that record only.
\<close>

theorem processBatch_keeps_successes_in_order:
  assumes "varietiesRead = Inr varieties"
  shows "map_index (processRecord fmt remote now varieties startIdx m ts sc rf) records 0 =
           map (\<lambda>i. if isl (predicted_label fmt remote varieties m ts sc rf records i) then None
                     else Some (result_for now startIdx m records
                                  (predicted_label fmt remote varieties m ts sc rf records) i))
             [0..<length records] \<and>
         processBatch fmt remote now varietiesRead records startIdx m ts sc rf =
           Inr (map (result_for now startIdx m records
                       (predicted_label fmt remote varieties m ts sc rf records))
                  (filter (\<lambda>i. \<not> isl (predicted_label fmt remote varieties m ts sc rf records i))
                     [0..<length records]))"
proof -
  let ?label = "predicted_label fmt remote varieties m ts sc rf records"
  let ?f = "processRecord fmt remote now varieties startIdx m ts sc rf"
  have batchResults: "map_index ?f records 0 =
          map (\<lambda>i. if isl (?label i) then None
                    else Some (result_for now startIdx m records ?label i)) [0..<length records]"
    by (simp add: map_index_eq processRecord_cases)
  have kept: "map the (filter (\<lambda>result. result \<noteq> None)
          (map (\<lambda>i. if isl (?label i) then None
                    else Some (result_for now startIdx m records ?label i)) is)) =
        map (result_for now startIdx m records ?label) (filter (\<lambda>i. \<not> isl (?label i)) is)" for "is"
    by (induction "is") simp_all
  have "processBatch fmt remote now varietiesRead records startIdx m ts sc rf =
          Inr (map (result_for now startIdx m records ?label)
                 (filter (\<lambda>i. \<not> isl (?label i)) [0..<length records]))"
    using assms batchResults kept by (simp add: processBatch_def Let_def)
  with batchResults show ?thesis by (simp only:)
qed

theorem processBatch_witness:
  "processBatch fmt0 second_fails clock0 (Inr [''Merlot'', ''Syrah''])
     [wine ''A'', wine ''B'', wine ''C''] 50 ''gpt-4o'' ''11-03-10-00'' True () =
   Inr [\<lparr>pr_recordId = 50, pr_model = ''gpt-4o'', pr_prediction = ''Merlot'',
         pr_timestamp = ''2024-11-03T10:00:00.000Z'', pr_winery = JStr ''A'',
         pr_variety = JStr ''Merlot'', pr_actual_variety = JStr ''Merlot''\<rparr>,
        \<lparr>pr_recordId = 52, pr_model = ''gpt-4o'', pr_prediction = ''Merlot'',
         pr_timestamp = ''2024-11-03T10:00:00.000Z'', pr_winery = JStr ''C'',
         pr_variety = JStr ''Merlot'', pr_actual_variety = JStr ''Merlot''\<rparr>]"
proof -
  have ok: "predicted_label fmt0 second_fails [''Merlot'', ''Syrah''] ''gpt-4o'' ''11-03-10-00'' True ()
              [wine ''A'', wine ''B'', wine ''C''] i = (if i = 1 then Inl (RemoteError ''429'') else Inr ''Merlot'')" for i
    by (simp add: predicted_label_def getPrediction_def tryPrediction_def second_fails_def
          retryLoop_retry retryLoop_last retryLoop_success)
  have upt3: "[0..<length [wine ''A'', wine ''B'', wine ''C'']] = [0, 1, 2]"
    by (simp add: upt_conv_Cons)
  let ?label = "predicted_label fmt0 second_fails [''Merlot'', ''Syrah''] ''gpt-4o''
      ''11-03-10-00'' True () [wine ''A'', wine ''B'', wine ''C'']"
  have kept: "filter (\<lambda>i. \<not> isl (?label i)) [0..<length [wine ''A'', wine ''B'', wine ''C'']] = [0, 2]"
    unfolding upt3 by (simp add: ok)
  have "processBatch fmt0 second_fails clock0 (Inr [''Merlot'', ''Syrah''])
          [wine ''A'', wine ''B'', wine ''C''] 50 ''gpt-4o'' ''11-03-10-00'' True () =
        Inr (map (result_for clock0 50 ''gpt-4o'' [wine ''A'', wine ''B'', wine ''C''] ?label) [0, 2])"
    using processBatch_keeps_successes_in_order [OF refl, of fmt0 second_fails clock0
        "[''Merlot'', ''Syrah'']" 50 "''gpt-4o''" "''11-03-10-00''" True "()"
        "[wine ''A'', wine ''B'', wine ''C'']"]
    unfolding kept by (rule conjunct2)
  then show ?thesis
    by (simp add: result_for_def ok clock0_def) (simp add: wine_def)
qed

section \<open>Properties of the batch loop\<close>

lemma BATCH_SIZE_eq: "BATCH_SIZE = 50"
  by (simp add: BATCH_SIZE_def REQUESTS_PER_MINUTE_def)

lemma BATCH_SIZE_pos: "0 < BATCH_SIZE"
  by (simp add: BATCH_SIZE_eq)

lemma js_slice_batch: "js_slice xs (int i) (int (i + n)) = take n (drop i xs)"
proof (cases "i \<le> length xs")
  case True
  then have "nat (min (int i + int n) (int (length xs)) - int i) = min n (length xs - i)"
    by (auto simp add: min_def)
  moreover have "take (min n (length (drop i xs))) (drop i xs) = take n (drop i xs)"
    by (simp add: min_def)
  ultimately show ?thesis
    using True by (simp add: js_slice_def Let_def min_absorb1)
next
  case False
  then show ?thesis
    by (simp add: js_slice_def Let_def min_def)
qed

lemma mainBatches_unfold:
  "mainBatches xs i =
     (if i < length xs then (i, take BATCH_SIZE (drop i xs)) # mainBatches xs (i + BATCH_SIZE)
      else [])"
  by (subst mainBatches.simps) (simp only: js_slice_batch)

lemma mainBatches_Cons:
  "i < length xs \<Longrightarrow>
     mainBatches xs i = (i, take BATCH_SIZE (drop i xs)) # mainBatches xs (i + BATCH_SIZE)"
  by (subst mainBatches_unfold) simp

lemma mainBatches_Nil: "\<not> i < length xs \<Longrightarrow> mainBatches xs i = []"
  by (subst mainBatches_unfold) simp

lemma mainBatches_concat: "concat (map snd (mainBatches xs i)) = drop i xs"
proof (induction xs i rule: mainBatches.induct)
  case (1 xs i)
  show ?case
  proof (cases "i < length xs")
    case True
    have "take BATCH_SIZE (drop i xs) @ drop (i + BATCH_SIZE) xs = drop i xs"
      using append_take_drop_id [of BATCH_SIZE "drop i xs"] by (simp add: add.commute)
    with True "1.IH" show ?thesis
      by (simp add: mainBatches_Cons)
  next
    case False
    then show ?thesis by (simp add: mainBatches_Nil)
  qed
qed

lemma ceiling_one_batch:
  assumes "0 < d" and "d \<le> s"
  shows "\<lceil>(of_nat d :: rat) / of_nat s\<rceil> = 1"
proof (rule ceiling_unique)
  from assms show "of_int 1 - 1 < (of_nat d :: rat) / of_nat s" by simp
  from assms have "(of_nat d :: rat) \<le> of_nat s" by simp
  with assms show "(of_nat d :: rat) / of_nat s \<le> of_int 1"
    by (simp add: divide_le_eq_1)
qed

lemma ceiling_next_batch:
  assumes "0 < s"
  shows "\<lceil>(of_nat (d + s) :: rat) / of_nat s\<rceil> = \<lceil>(of_nat d :: rat) / of_nat s\<rceil> + 1"
proof -
  from assms have "(of_nat (d + s) :: rat) / of_nat s = of_nat d / of_nat s + 1"
    by (simp add: add_divide_distrib)
  then show ?thesis by simp
qed

lemma mainBatches_length:
  "int (length (mainBatches xs i)) = \<lceil>(of_nat (length xs - i) :: rat) / of_nat BATCH_SIZE\<rceil>"
proof (induction xs i rule: mainBatches.induct)
  case (1 xs i)
  let ?S = "BATCH_SIZE"
  show ?case
  proof (cases "i < length xs")
    case True
    note IH = "1.IH" [OF True]
    have len: "int (length (mainBatches xs i)) = int (length (mainBatches xs (i + ?S))) + 1"
      using True by (simp add: mainBatches_Cons)
    show ?thesis
    proof (cases "?S \<le> length xs - i")
      case True
      then have split: "length xs - i = (length xs - (i + ?S)) + ?S" by simp
      have "\<lceil>(of_nat (length xs - i) :: rat) / of_nat ?S\<rceil> =
            \<lceil>(of_nat (length xs - (i + ?S)) :: rat) / of_nat ?S\<rceil> + 1"
        by (subst split) (rule ceiling_next_batch [OF BATCH_SIZE_pos])
      with len IH show ?thesis by (simp only:)
    next
      case False
      with \<open>i < length xs\<close> have d: "0 < length xs - i" "length xs - i \<le> ?S"
        and z: "length xs - (i + ?S) = 0"
        by simp_all
      from len IH z have "int (length (mainBatches xs i)) = 1" by simp
      with ceiling_one_batch [OF d] show ?thesis by simp
    qed
  next
    case False
    then show ?thesis by (simp add: mainBatches_Nil)
  qed
qed

lemma mainBatches_nth:
  "k < length (mainBatches xs i) \<Longrightarrow>
     i + k * BATCH_SIZE < length xs \<and>
     mainBatches xs i ! k =
       (i + k * BATCH_SIZE, take BATCH_SIZE (drop (i + k * BATCH_SIZE) xs))"
proof (induction xs i arbitrary: k rule: mainBatches.induct)
  case (1 xs i)
  show ?case
  proof (cases "i < length xs")
    case True
    note unf = mainBatches_Cons [OF True]
    show ?thesis
    proof (cases k)
      case 0
      with unf True show ?thesis by simp
    next
      case (Suc k')
      with "1.prems" unf have "k' < length (mainBatches xs (i + BATCH_SIZE))" by simp
      from "1.IH" [OF True this] Suc unf show ?thesis by (simp add: add.assoc)
    qed
  next
    case False
    with "1.prems" show ?thesis by (simp add: mainBatches_Nil)
  qed
qed

lemma mainBatches_index:
  "i \<le> j \<Longrightarrow> j < length xs \<Longrightarrow> (j - i) div BATCH_SIZE < length (mainBatches xs i)"
proof (induction xs i rule: mainBatches.induct)
  case (1 xs i)
  from "1.prems" have lt: "i < length xs" by simp
  note unf = mainBatches_Cons [OF lt]
  show ?case
  proof (cases "j < i + BATCH_SIZE")
    case True
    with "1.prems" have "(j - i) div BATCH_SIZE = 0" by simp
    with unf show ?thesis by simp
  next
    case False
    then have ge: "i + BATCH_SIZE \<le> j" by simp
    from "1.IH" [OF lt ge "1.prems"(2)]
    have "(j - (i + BATCH_SIZE)) div BATCH_SIZE < length (mainBatches xs (i + BATCH_SIZE))" .
    moreover have "(j - i) div BATCH_SIZE = Suc ((j - i - BATCH_SIZE) div BATCH_SIZE)"
      using ge BATCH_SIZE_pos by (intro le_div_geq) simp_all
    ultimately show ?thesis using unf by simp
  qed
qed

text \<open>
  C6. With \<open>BATCH_SIZE = floor(200 / 4) = 50\<close>, the batch loop of \<open>main\<close> cuts the
  sampled records into exactly \<open>ceil(B / BATCH_SIZE)\<close> batches (the \<open>totalBatches\<close> it
  prints). The batches, in order, make up the list again; batch \<open>k\<close> starts at index
  \<open>k * BATCH_SIZE\<close> and holds the next \<open>BATCH_SIZE\<close> records (fewer at the end); and
  every index of the list lies in the range of exactly one batch, where its record is
  found.
\<close>

theorem mainBatches_partition:
  "BATCH_SIZE = 50 \<and>
   int (length (mainBatches xs 0)) = totalBatches xs \<and>
   concat (map snd (mainBatches xs 0)) = xs \<and>
   (\<forall>k<length (mainBatches xs 0).
      mainBatches xs 0 ! k = (k * BATCH_SIZE, take BATCH_SIZE (drop (k * BATCH_SIZE) xs))) \<and>
   (\<forall>j<length xs.
      (\<exists>!k. k < length (mainBatches xs 0) \<and> fst (mainBatches xs 0 ! k) \<le> j \<and>
             j < fst (mainBatches xs 0 ! k) + length (snd (mainBatches xs 0 ! k))) \<and>
      snd (mainBatches xs 0 ! (j div BATCH_SIZE)) ! (j mod BATCH_SIZE) = xs ! j)"
proof -
  let ?bs = "mainBatches xs 0"
  let ?S = "BATCH_SIZE"
  have len: "int (length ?bs) = totalBatches xs"
    using mainBatches_length [of xs 0] by (simp add: totalBatches_def)
  have nth: "k * ?S < length xs \<and> ?bs ! k = (k * ?S, take ?S (drop (k * ?S) xs))"
    if "k < length ?bs" for k
    using mainBatches_nth [OF that] by simp
  have in_range: "j div ?S < length ?bs" if "j < length xs" for j
    using mainBatches_index [of 0 j xs] that by simp
  have unique: "\<exists>!k. k < length ?bs \<and> fst (?bs ! k) \<le> j \<and>
                     j < fst (?bs ! k) + length (snd (?bs ! k))" if j: "j < length xs" for j
  proof (rule ex1I [of _ "j div ?S"])
    define q where "q = j div ?S * ?S"
    have "q \<le> j" by (simp add: q_def)
    moreover have "j < ?S + q"
      unfolding q_def using BATCH_SIZE_pos by (rule dividend_less_div_times)
    ultimately have "j < q + min (length xs - q) ?S"
      using j by (simp add: min_def)
    then have "j < j div ?S * ?S + min (length xs - j div ?S * ?S) ?S"
      by (simp only: q_def)
    with in_range [OF j] nth [OF in_range [OF j]]
    show "j div ?S < length ?bs \<and> fst (?bs ! (j div ?S)) \<le> j \<and>
          j < fst (?bs ! (j div ?S)) + length (snd (?bs ! (j div ?S)))"
      by simp
  next
    fix k
    assume k: "k < length ?bs \<and> fst (?bs ! k) \<le> j \<and> j < fst (?bs ! k) + length (snd (?bs ! k))"
    with nth [of k] have "k * ?S \<le> j" and "j < k * ?S + min (length xs - k * ?S) ?S"
      by simp_all
    then have "?S * k \<le> j" and "j < ?S * Suc k"
      by (simp_all add: mult.commute)
    then have "j div ?S = k" by (rule div_nat_eqI)
    then show "k = j div ?S" by simp
  qed
  have elem: "snd (?bs ! (j div ?S)) ! (j mod ?S) = xs ! j" if j: "j < length xs" for j
  proof -
    have eq: "j div ?S * ?S + j mod ?S = j" by simp
    have "j mod ?S < ?S" using BATCH_SIZE_pos by simp
    moreover have "j mod ?S < length xs - j div ?S * ?S" using j eq by linarith
    ultimately show ?thesis
      using nth [OF in_range [OF j]] eq by (simp add: add.commute)
  qed
  show ?thesis
    using len nth unique elem mainBatches_concat [of xs 0] BATCH_SIZE_eq
    by simp
qed

theorem mainBatches_partition_witness:
  "int (length (mainBatches [0..<120::nat] 0)) = 3 \<and>
   totalBatches [0..<120::nat] = 3 \<and>
   mainBatches [0..<120::nat] 0 ! 2 = (100, [100..<120]) \<and>
   snd (mainBatches [0..<120::nat] 0 ! 2) ! 19 = 119"
proof -
  have t: "totalBatches [0..<120::nat] = 3"
    unfolding totalBatches_def by (rule ceiling_unique) (simp_all add: BATCH_SIZE_eq)
  have l: "(2::nat) < length (mainBatches [0..<120::nat] 0)"
    using mainBatches_partition [of "[0..<120::nat]"] t by simp
  have d: "drop 100 [0..<120::nat] = [100..<120]" by (simp add: drop_upt)
  have j: "(119::nat) < length [0..<120::nat]" by simp
  have "snd (mainBatches [0..<120::nat] 0 ! (119 div BATCH_SIZE)) ! (119 mod BATCH_SIZE) =
          [0..<120::nat] ! 119"
    using mainBatches_partition [of "[0..<120::nat]"] j by blast
  then have e: "snd (mainBatches [0..<120::nat] 0 ! 2) ! 19 = 119"
    by (simp add: BATCH_SIZE_eq)
  have "mainBatches [0..<120::nat] 0 ! 2 = (2 * BATCH_SIZE, take BATCH_SIZE (drop (2 * BATCH_SIZE) [0..<120::nat]))"
    using mainBatches_partition [of "[0..<120::nat]"] l by blast
  then have n: "mainBatches [0..<120::nat] 0 ! 2 = (100, [100..<120])"
    using d by (simp add: BATCH_SIZE_eq)
  from mainBatches_partition [of "[0..<120::nat]"] t n e show ?thesis by simp
qed

section \<open>Properties of the readers\<close>






lemma mapPredictionRow_invalid_date:
  "\<not> timestampReadable row \<Longrightarrow> mapPredictionRow fmt row = Inl RangeError"
  by (simp add: timestampReadable_def mapPredictionRow_def)




text \<open>
  A row of a predictions file that has only its first two cells is kept:
  \<open>String(undefined)\<close> is the string 'undefined', so the checks on the remaining fields
  hold for it.
\<close>

lemma readPredictionsFile_short_row:
  "readPredictionsFile fmt0 [''predictions.csv'' \<mapsto> [Data [JNum 1, JStr ''gpt-4o'']]]
       ''predictions.csv'' =
     Inr [\<lparr>recordId = JNum 1, model = JStr ''gpt-4o'', prediction = ''undefined'',
           timestamp = ''undefined'', winery = ''undefined'', variety = ''undefined'',
           actual_variety = ''undefined''\<rparr>]"
  by (simp add: readPredictionsFile_def onPredictionData_def validateWinePredictionRecord_def
        mapPredictionRow_def js_index_def)

text \<open>
  A row of a predictions file whose timestamp cell is an invalid date makes the
  \<open>'data'\<close> handler throw, whatever the other rows are: no list of records is returned.
\<close>

lemma readPredictionsFile_invalid_date:
  "readPredictionsFile fmt0
       [''predictions.csv'' \<mapsto>
          [Data [JNum 0, JStr ''gpt-4o'', JStr ''Merlot'', JInvalidDate, JStr ''Alpha'',
                 JStr ''Merlot'', JStr ''Merlot'']]]
       ''predictions.csv'' =
     Inl RangeError"
  by (simp add: readPredictionsFile_def onPredictionData_def mapPredictionRow_def js_index_def)

text \<open>
  A row of the dataset whose winery cell reads as the number 0 has all its required
  fields and is dropped all the same: the handler's check is truthiness.
\<close>

lemma readWineStream_falsy_field:
  "readWineStream
       [Data [''winery'' \<mapsto> JNum 0, ''variety'' \<mapsto> JStr ''Merlot'',
              ''description'' \<mapsto> JStr ''Ripe'']] [] =
     Inr []"
  by (simp add: onWineData_def js_field_def)




section \<open>Properties of the command-line handler\<close>

text \<open>
  C8, on the code. With no comparison-model argument the handler does not report an
  error or exit with code 1: \<open>process.argv[2] || 'gpt-4o-mini'\<close> has already replaced
  the missing argument, so the evaluation runs with \<open>gpt-4o-mini\<close>, and the guard
  \<open>if (!model)\<close> with its message can never be taken, whatever the arguments.
\<close>

theorem cli_handler_missing_model:
  "cli_handler parseInt (\<lambda>config. None) [''node'', ''src/run_evaluation.ts''] =
     [RunEvaluation \<lparr>comparisonModel = ''gpt-4o-mini'', datasets = [''train'', ''validation''],
                     numSamples = 3\<rparr>] \<and>
   ConsoleError ''Please provide a comparison model name'' None
     \<notin> set (cli_handler parseInt runEvaluation argv)"
proof -
  have nonempty: "or_default a ''gpt-4o-mini'' \<noteq> []" for a
    by (simp add: or_default_def split: option.splits)
  have "cli_handler parseInt (\<lambda>config. None) [''node'', ''src/run_evaluation.ts''] =
     [RunEvaluation \<lparr>comparisonModel = ''gpt-4o-mini'', datasets = [''train'', ''validation''],
                     numSamples = 3\<rparr>]"
    by (simp add: cli_handler_def argv_at_def or_default_def)
  moreover have "ConsoleError ''Please provide a comparison model name'' None
     \<notin> set (cli_handler parseInt runEvaluation argv)"
    using nonempty by (auto simp add: cli_handler_def Let_def split: option.splits)
  ultimately show ?thesis by simp
qed

end
